theory Spec2Isabelle
  imports Main "HOL-Library.AList"
begin

section \<open>JavaScript values\<close>

text \<open>
  The configuration holder is read with \<^verbatim>\<open>(definitionObject as any)[propertyName]\<close>, so the
  values it holds are dynamically typed. A function or class is a reference \<open>JFun f\<close>; what it
  does when called or constructed is given by the beans below. A plain object is the list of
  its own properties, in insertion order.
\<close>

datatype jsval =
    JUndefined
  | JNull
  | JBool bool
  | JNum int
  | JStr string
  | JFun nat
  | JObj "(string \<times> jsval) list"

text \<open>\<^verbatim>\<open>if (v)\<close>, \<^verbatim>\<open>!v\<close>, \<^verbatim>\<open>a && b\<close>: JavaScript truthiness.\<close>

fun truthy :: "jsval \<Rightarrow> bool" where
  "truthy JUndefined = False"
| "truthy JNull = False"
| "truthy (JBool b) = b"
| "truthy (JNum n) = (n \<noteq> 0)"
| "truthy (JStr s) = (s \<noteq> [])"
| "truthy (JFun f) = True"
| "truthy (JObj ps) = True"

text \<open>\<^verbatim>\<open>v == null\<close> holds of \<^verbatim>\<open>null\<close> and \<^verbatim>\<open>undefined\<close> only.\<close>

fun eq_null :: "jsval \<Rightarrow> bool" where
  "eq_null JUndefined = True"
| "eq_null JNull = True"
| "eq_null v = False"

fun typeof_string :: "jsval \<Rightarrow> bool" where
  "typeof_string (JStr s) = True"
| "typeof_string v = False"

fun typeof_boolean :: "jsval \<Rightarrow> bool" where
  "typeof_boolean (JBool b) = True"
| "typeof_boolean v = False"

text \<open>
  \<^verbatim>\<open>obj[key]\<close> on a value that is not \<^verbatim>\<open>null\<close> or \<^verbatim>\<open>undefined\<close> (every read of the source is
  guarded so): the own property, \<^verbatim>\<open>undefined\<close> when there is none. Primitives and function
  references carry no properties here.
\<close>

fun get_prop :: "jsval \<Rightarrow> string \<Rightarrow> jsval" where
  "get_prop (JObj ps) k = (case map_of ps k of Some v \<Rightarrow> v | None \<Rightarrow> JUndefined)"
| "get_prop v k = JUndefined"

text \<open>\<^verbatim>\<open>obj[key] = v\<close> on a plain object: overwrite in place, or append a new property.\<close>

fun set_prop :: "jsval \<Rightarrow> string \<Rightarrow> jsval \<Rightarrow> jsval" where
  "set_prop (JObj ps) k v = JObj (AList.update k v ps)"
| "set_prop w k v = w"

section \<open>Data model of userComponentFactory.ts\<close>

datatype ComponentType = PLAIN_JAVASCRIPT | FRAMEWORK

datatype ComponentSource = DEFAULT | REGISTERED_BY_NAME | HARDCODED

text \<open>
  \<^verbatim>\<open>RegisteredComponentSource\<close> and \<^verbatim>\<open>RegisteredComponent\<close> are declared in
  userComponentRegistry.ts; the fields are the ones \<^verbatim>\<open>lookupFromRegisteredComponents\<close> reads.
\<close>

datatype RegisteredComponentSource = RCS_DEFAULT | RCS_REGISTERED

record RegisteredComponent =
  rc_component :: jsval
  rc_type :: ComponentType
  rc_source :: RegisteredComponentSource

record ComponentClassDef =
  component :: jsval
  type :: ComponentType
  source :: ComponentSource
  paramsFromSelector :: jsval

record ComponentMetadata =
  mandatoryMethodList :: "string list"
  optionalMethodList :: "string list"

text \<open>
  What a call can throw: the three \<^verbatim>\<open>throw Error(...)\<close> of \<^verbatim>\<open>getComponentClassDef\<close>, each
  carrying the property name its message ends with, and the \<^verbatim>\<open>TypeError\<close> the runtime raises
  when a property of \<^verbatim>\<open>null\<close> or \<^verbatim>\<open>undefined\<close> is read, or a value that is not a function
  is called or constructed.
\<close>

datatype error =
    SpecifiedTwice string
  | NotFrameworkVersion string
  | SelectorAndComponent string
  | TypeError

text \<open>
  The specification's names for these: \<open>ConflictingSpecification\<close> is either of the two
  errors about a doubly specified component, \<open>MissingFrameworkAdapter\<close> the one about a
  framework component without a framework version of the grid.
\<close>

fun ConflictingSpecification :: "error \<Rightarrow> bool" where
  "ConflictingSpecification (SpecifiedTwice p) = True"
| "ConflictingSpecification (SelectorAndComponent p) = True"
| "ConflictingSpecification e = False"

fun MissingFrameworkAdapter :: "error \<Rightarrow> bool" where
  "MissingFrameworkAdapter (NotFrameworkVersion p) = True"
| "MissingFrameworkAdapter e = False"

text \<open>
  Modelled from the spec: the \<^verbatim>\<open>Promise\<close> class of utils.ts is not among the sources. A
  future is either resolved with its value, or in progress: waiting for the deferred task
  \<open>d\<close> to complete, and resolving to \<open>v\<close> then.
\<close>

datatype 'a promise = Resolved 'a | InProgress nat 'a

text \<open>Modelled from the spec: \<^verbatim>\<open>Promise.resolve(v)\<close>, a future that is resolved from the start.\<close>

fun promise_resolve :: "'a \<Rightarrow> 'a promise" where
  "promise_resolve v = Resolved v"

text \<open>
  Modelled from the spec: \<^verbatim>\<open>p.map(f)\<close>, the future that resolves when \<open>p\<close> does, to \<open>f\<close> of
  its value.
\<close>

fun promise_map :: "('a \<Rightarrow> 'b) \<Rightarrow> 'a promise \<Rightarrow> 'b promise" where
  "promise_map f (Resolved v) = Resolved (f v)"
| "promise_map f (InProgress d v) = InProgress d (f v)"

text \<open>
  Modelled from the spec: the deferred task \<open>d\<close> completes, and every future waiting for it
  resolves.
\<close>

fun complete :: "nat \<Rightarrow> 'a promise \<Rightarrow> 'a promise" where
  "complete d (Resolved v) = Resolved v"
| "complete d (InProgress d' v) = (if d = d' then Resolved v else InProgress d' v)"

text \<open>What \<^verbatim>\<open>init\<close> returns (\<^verbatim>\<open>Promise<void> | void\<close>).\<close>

datatype init_result = Void | Deferred "unit promise"

text \<open>
  The beans wired into the factory, and the behaviour of the code the factory calls but
  does not contain. \<open>'c\<close> is the type of component instances (\<^verbatim>\<open>A extends IComponent\<close>).
  \<^item> \<open>gridOptions\<close>: the \<^verbatim>\<open>gridOptions\<close> bean, an object;
  \<^item> \<open>frameworkComponentWrapper\<close>: the optional bean, given by its \<^verbatim>\<open>wrap\<close> method; \<open>None\<close>
    when no framework version of the grid installed one;
  \<^item> \<open>doesImplementIComponent\<close>, \<open>adaptFunction\<close>: the two methods of \<^verbatim>\<open>agComponentUtils\<close>
    (\<open>adaptFunction\<close> may return \<^verbatim>\<open>null\<close>);
  \<^item> \<open>metadataRetrieve\<close>: \<^verbatim>\<open>componentMetadataProvider.retrieve\<close>;
  \<^item> \<open>registryRetrieve\<close>: \<^verbatim>\<open>userComponentRegistry.retrieve\<close>, on the value passed as the name;
  \<^item> \<open>getBean\<close>: \<^verbatim>\<open>context.getBean\<close>; \<open>cloneObject\<close>: \<^verbatim>\<open>_.cloneObject\<close>;
  \<^item> \<open>callFunction f args\<close>: the value the function \<open>JFun f\<close> returns on \<open>args\<close>;
  \<^item> \<open>construct f\<close>: the instance \<^verbatim>\<open>new\<close> makes of the class \<open>JFun f\<close>;
  \<^item> \<open>initOf c\<close>: the \<^verbatim>\<open>init\<close> method of the instance \<open>c\<close>, \<open>None\<close> when it has none.
\<close>

record 'c beans =
  gridOptions :: "(string \<times> jsval) list"
  frameworkComponentWrapper :: "(jsval \<Rightarrow> string list \<Rightarrow> string list \<Rightarrow> string option \<Rightarrow> 'c) option"
  doesImplementIComponent :: "jsval \<Rightarrow> bool"
  adaptFunction :: "string \<Rightarrow> jsval \<Rightarrow> ComponentType \<Rightarrow> ComponentSource \<Rightarrow> ComponentClassDef option"
  metadataRetrieve :: "string \<Rightarrow> ComponentMetadata option"
  registryRetrieve :: "jsval \<Rightarrow> RegisteredComponent option"
  getBean :: "string \<Rightarrow> jsval"
  cloneObject :: "jsval \<Rightarrow> jsval"
  callFunction :: "nat \<Rightarrow> jsval list \<Rightarrow> jsval"
  construct :: "nat \<Rightarrow> 'c"
  initOf :: "'c \<Rightarrow> (jsval \<Rightarrow> init_result) option"

text \<open>\<^verbatim>\<open>f(args)\<close>: a \<^verbatim>\<open>TypeError\<close> when \<open>f\<close> is not a function.\<close>

fun js_call :: "'c beans \<Rightarrow> jsval \<Rightarrow> jsval list \<Rightarrow> error + jsval" where
  "js_call b (JFun f) args = Inr (callFunction b f args)"
| "js_call b v args = Inl TypeError"

text \<open>An optional string argument (\<^verbatim>\<open>defaultComponentName?: string\<close>) as a value.\<close>

fun opt_string :: "string option \<Rightarrow> jsval" where
  "opt_string None = JUndefined"
| "opt_string (Some s) = JStr s"

section \<open>getComponentClassDef\<close>

text \<open>
  The five locals of \<^verbatim>\<open>getComponentClassDef\<close> after its first block (lines 187 to 211): the
  classification of the holder's entries for one property name.
\<close>

record ExtensionPointSpec =
  hardcodedNameComponent :: jsval
  HardcodedJsComponent :: jsval
  hardcodedJsFunction :: jsval
  HardcodedFwComponent :: jsval
  componentSelectorFunc :: jsval

definition readSpec :: "'c beans \<Rightarrow> jsval \<Rightarrow> string \<Rightarrow> ExtensionPointSpec" where
  "readSpec b definitionObject propertyName =
    (if eq_null definitionObject then
       \<lparr>hardcodedNameComponent = JNull, HardcodedJsComponent = JNull,
        hardcodedJsFunction = JNull, HardcodedFwComponent = JNull,
        componentSelectorFunc = JUndefined\<rparr>
     else
       let componentPropertyValue = get_prop definitionObject propertyName;
           usingDefaultComponent = (componentPropertyValue = JBool True);
           classified = (\<not> eq_null componentPropertyValue \<and> \<not> usingDefaultComponent);
           isString = typeof_string componentPropertyValue;
           isBoolean = typeof_boolean componentPropertyValue;
           isComponent = doesImplementIComponent b componentPropertyValue
       in
       \<lparr>hardcodedNameComponent =
          (if classified \<and> isString then componentPropertyValue else JNull),
        HardcodedJsComponent =
          (if classified \<and> \<not> isString \<and> \<not> isBoolean \<and> isComponent
           then componentPropertyValue else JNull),
        hardcodedJsFunction =
          (if classified \<and> \<not> isString \<and> \<not> isBoolean \<and> \<not> isComponent
           then componentPropertyValue else JNull),
        HardcodedFwComponent = get_prop definitionObject (propertyName @ ''Framework''),
        componentSelectorFunc = get_prop definitionObject (propertyName @ ''Selector'')\<rparr>)"

definition lookupFromRegisteredComponents ::
  "'c beans \<Rightarrow> string \<Rightarrow> jsval \<Rightarrow> ComponentClassDef option" where
  "lookupFromRegisteredComponents b propertyName componentNameOpt =
    (let componentName =
           (if \<not> eq_null componentNameOpt then componentNameOpt else JStr propertyName)
     in case registryRetrieve b componentName of
          None \<Rightarrow> None
        | Some registeredComponent \<Rightarrow>
            if rc_type registeredComponent = FRAMEWORK then
              Some \<lparr>component = rc_component registeredComponent, type = FRAMEWORK,
                    source = REGISTERED_BY_NAME, paramsFromSelector = JNull\<rparr>
            else if doesImplementIComponent b (rc_component registeredComponent) then
              Some \<lparr>component = rc_component registeredComponent, type = PLAIN_JAVASCRIPT,
                    source = (if rc_source registeredComponent = RCS_REGISTERED
                              then REGISTERED_BY_NAME else DEFAULT),
                    paramsFromSelector = JNull\<rparr>
            else
              adaptFunction b propertyName (rc_component registeredComponent)
                (rc_type registeredComponent)
                (if rc_source registeredComponent = RCS_REGISTERED
                 then REGISTERED_BY_NAME else DEFAULT))"

text \<open>
  Lines 272 to 281: the selector's result (\<^verbatim>\<open>null\<close> without a selector) and the name to look
  up. The selector is called once the three checks have passed.
\<close>

text \<open>
  Line 176, \<^verbatim>\<open>params: any = null\<close>: an argument that is \<^verbatim>\<open>undefined\<close> (or left out) is
  replaced by the default \<^verbatim>\<open>null\<close>.
\<close>

fun paramsOrNull :: "jsval \<Rightarrow> jsval" where
  "paramsOrNull JUndefined = JNull"
| "paramsOrNull v = v"

definition selectorResultOf :: "'c beans \<Rightarrow> jsval \<Rightarrow> jsval \<Rightarrow> error + jsval" where
  "selectorResultOf b selectorFunc params =
    (if truthy selectorFunc then js_call b selectorFunc [params] else Inr JNull)"

definition componentNameToUse :: "jsval \<Rightarrow> jsval \<Rightarrow> string option \<Rightarrow> jsval" where
  "componentNameToUse selectorResult hardcodedName defaultComponentName =
    (if truthy selectorResult \<and> truthy (get_prop selectorResult ''component'')
     then get_prop selectorResult ''component''
     else if truthy hardcodedName then hardcodedName
     else opt_string defaultComponentName)"

text \<open>
  \<^verbatim>\<open>getComponentClassDef\<close>, lines 218 to 292: the three checks, the three hardcoded forms, and
  the lookup by name. Line 285 may get \<^verbatim>\<open>null\<close> from \<^verbatim>\<open>lookupFromRegisteredComponents\<close>; line 288
  reads \<^verbatim>\<open>registeredCompClassDef.type\<close> without a test, which is a \<^verbatim>\<open>TypeError\<close> then.
\<close>

definition getComponentClassDef ::
  "'c beans \<Rightarrow> jsval \<Rightarrow> string \<Rightarrow> jsval \<Rightarrow> string option \<Rightarrow> error + ComponentClassDef option" where
  "getComponentClassDef b definitionObject propertyName params defaultComponentName =
    (let s = readSpec b definitionObject propertyName in
     if (truthy (HardcodedJsComponent s) \<and> truthy (HardcodedFwComponent s)) \<or>
        (truthy (hardcodedNameComponent s) \<and> truthy (HardcodedFwComponent s)) \<or>
        (truthy (hardcodedJsFunction s) \<and> truthy (HardcodedFwComponent s))
     then Inl (SpecifiedTwice propertyName)
     else if truthy (HardcodedFwComponent s) \<and> frameworkComponentWrapper b = None
     then Inl (NotFrameworkVersion propertyName)
     else if truthy (componentSelectorFunc s) \<and>
        (truthy (hardcodedNameComponent s) \<or> truthy (HardcodedJsComponent s) \<or>
         truthy (hardcodedJsFunction s) \<or> truthy (HardcodedFwComponent s))
     then Inl (SelectorAndComponent propertyName)
     else if truthy (HardcodedFwComponent s) then
       Inr (Some \<lparr>component = HardcodedFwComponent s, type = FRAMEWORK,
                  source = HARDCODED, paramsFromSelector = JNull\<rparr>)
     else if truthy (HardcodedJsComponent s) then
       Inr (Some \<lparr>component = HardcodedJsComponent s, type = PLAIN_JAVASCRIPT,
                  source = HARDCODED, paramsFromSelector = JNull\<rparr>)
     else if truthy (hardcodedJsFunction s) then
       Inr (adaptFunction b propertyName (hardcodedJsFunction s) PLAIN_JAVASCRIPT HARDCODED)
     else
       case selectorResultOf b (componentSelectorFunc s) (paramsOrNull params) of
         Inl e \<Rightarrow> Inl e
       | Inr selectorResult \<Rightarrow>
           let name = componentNameToUse selectorResult (hardcodedNameComponent s)
                        defaultComponentName
           in if \<not> truthy name then Inr None
              else (case lookupFromRegisteredComponents b propertyName name of
                      None \<Rightarrow> Inl TypeError
                    | Some registeredCompClassDef \<Rightarrow>
                        Inr (Some \<lparr>component = component registeredCompClassDef,
                                   type = type registeredCompClassDef,
                                   source = source registeredCompClassDef,
                                   paramsFromSelector =
                                     (if truthy selectorResult
                                      then get_prop selectorResult ''params'' else JNull)\<rparr>)))"

section \<open>createFinalParams\<close>

text \<open>
  Modelled from the spec: \<^verbatim>\<open>_.mergeDeep\<close> of utils.ts is not among the sources. The
  specification's words: the merge is recursive, nested keys present in several sources
  combine, and the later (higher-precedence) leaf value overwrites the earlier one at any
  depth. \<open>mergeProps dest src\<close> goes through the properties of \<open>src\<close> in order: where both
  sides hold an object under a key the two are merged, anywhere else the value of \<open>src\<close> is
  stored. A source that is not an object (\<^verbatim>\<open>null\<close>, \<^verbatim>\<open>undefined\<close>, a primitive) adds
  nothing.
\<close>

fun mergeProps :: "(string \<times> jsval) list \<Rightarrow> (string \<times> jsval) list \<Rightarrow> (string \<times> jsval) list" where
  "mergeProps dest [] = dest"
| "mergeProps dest ((k, newValue) # src) =
     mergeProps
       (AList.update k
          (case newValue of
             JObj new \<Rightarrow>
               (case map_of dest k of
                  Some (JObj old) \<Rightarrow> JObj (mergeProps old new)
                | _ \<Rightarrow> newValue)
           | _ \<Rightarrow> newValue)
          dest)
       src"

text \<open>
  Modelled from the spec: \<^verbatim>\<open>_.mergeDeep(dest, source)\<close>, returning the merged object where the
  source updates \<open>dest\<close> in place.
\<close>

fun mergeDeep :: "jsval \<Rightarrow> jsval \<Rightarrow> jsval" where
  "mergeDeep (JObj dest) (JObj src) = JObj (mergeProps dest src)"
| "mergeDeep dest src = dest"

text \<open>
  What \<open>mergeProps\<close> stores under a key whose old value is \<open>oldValue\<close> (\<open>None\<close>: the key
  is new) and whose value in the source is \<open>newValue\<close>.
\<close>

definition mergeValue :: "jsval option \<Rightarrow> jsval \<Rightarrow> jsval" where
  "mergeValue oldValue newValue =
    (case newValue of
       JObj new \<Rightarrow>
         (case oldValue of
            Some (JObj old) \<Rightarrow> JObj (mergeProps old new)
          | _ \<Rightarrow> newValue)
     | _ \<Rightarrow> newValue)"

text \<open>
  \<^verbatim>\<open>createFinalParams\<close>, lines 341 to 366. \<open>res\<close> starts as the empty object and is merged
  into three times; the model names the three stages.
\<close>

definition userParamsOf :: "jsval \<Rightarrow> string \<Rightarrow> jsval" where
  "userParamsOf definitionObject propertyName =
    (if truthy definitionObject then get_prop definitionObject (propertyName @ ''Params'')
     else JNull)"

text \<open>
  Lines 351 to 357. \<^verbatim>\<open>typeof userParams\<close> is \<^verbatim>\<open>'function'\<close> for a function reference and
  \<^verbatim>\<open>'object'\<close> for an object (\<^verbatim>\<open>null\<close> is excluded by the test before).
\<close>

definition mergeUserParams :: "'c beans \<Rightarrow> jsval \<Rightarrow> jsval \<Rightarrow> jsval \<Rightarrow> jsval" where
  "mergeUserParams b res userParams paramsFromGrid =
    (if \<not> eq_null userParams then
       (case userParams of
          JFun f \<Rightarrow> mergeDeep res (callFunction b f [paramsFromGrid])
        | JObj ps \<Rightarrow> mergeDeep res userParams
        | _ \<Rightarrow> res)
     else res)"

definition injectApi :: "'c beans \<Rightarrow> jsval \<Rightarrow> jsval" where
  "injectApi b res =
    (if \<not> truthy (get_prop res ''api'')
     then set_prop res ''api'' (get_prop (JObj (gridOptions b)) ''api'')
     else res)"

definition createFinalParams :: "'c beans \<Rightarrow> jsval \<Rightarrow> string \<Rightarrow> jsval \<Rightarrow> jsval \<Rightarrow> jsval" where
  "createFinalParams b definitionObject propertyName paramsFromGrid fromSelector =
    (let res1 = mergeDeep (JObj []) paramsFromGrid;
         res2 = mergeUserParams b res1 (userParamsOf definitionObject propertyName) paramsFromGrid;
         res3 = mergeDeep res2 fromSelector
     in injectApi b res3)"

section \<open>Instantiation and initialisation\<close>

text \<open>
  What a call does besides returning: the instances it makes (\<^verbatim>\<open>new\<close>, \<^verbatim>\<open>wrap\<close>), the
  wiring (\<^verbatim>\<open>context.wireBean\<close>), the calls of \<^verbatim>\<open>customInitParamsCb\<close> and \<^verbatim>\<open>init\<close> with their
  arguments, and \<^verbatim>\<open>console.error\<close>. Every function below returns its result with the list of
  these events, in order.
\<close>

datatype 'c event =
    ConsoleError string
  | New nat
  | Wrap jsval "string list" "string list" "string option"
  | WireBean 'c
  | CustomInitParamsCb jsval 'c
  | Init 'c jsval

definition errorCreating :: "string \<Rightarrow> string option \<Rightarrow> string" where
  "errorCreating propertyName defaultComponentName =
    ''Error creating component '' @ propertyName @ ''=>'' @
      (case defaultComponentName of None \<Rightarrow> ''undefined'' | Some n \<Rightarrow> n)"

text \<open>
  \<^verbatim>\<open>createComponentInstance\<close>, lines 368 to 398. \<^verbatim>\<open>new\<close> of a value that is not a function is
  a \<^verbatim>\<open>TypeError\<close>; so is reading \<^verbatim>\<open>wrap\<close> of the wrapper bean when there is none, and reading
  the method lists of metadata that \<^verbatim>\<open>retrieve\<close> did not find.
\<close>

definition createComponentInstance ::
  "'c beans \<Rightarrow> jsval \<Rightarrow> string \<Rightarrow> jsval \<Rightarrow> string option \<Rightarrow> bool \<Rightarrow>
     (error + ('c \<times> jsval) option) \<times> 'c event list" where
  "createComponentInstance b holder propertyName paramsForSelector defaultComponentName mandatory =
    (case getComponentClassDef b holder propertyName paramsForSelector defaultComponentName of
       Inl e \<Rightarrow> (Inl e, [])
     | Inr componentToUse \<Rightarrow>
         let missing = (case componentToUse of
                          None \<Rightarrow> True
                        | Some d \<Rightarrow> \<not> truthy (component d))
         in if missing then
              (Inr None,
               if mandatory then [ConsoleError (errorCreating propertyName defaultComponentName)]
               else [])
            else (case componentToUse of
                    None \<Rightarrow> (Inr None, [])
                  | Some d \<Rightarrow>
                      if type d = PLAIN_JAVASCRIPT then
                        (case component d of
                           JFun f \<Rightarrow> (Inr (Some (construct b f, paramsFromSelector d)), [New f])
                         | _ \<Rightarrow> (Inl TypeError, []))
                      else
                        (case frameworkComponentWrapper b of
                           None \<Rightarrow> (Inl TypeError, [])
                         | Some wrap \<Rightarrow>
                             (case metadataRetrieve b propertyName of
                                None \<Rightarrow> (Inl TypeError, [])
                              | Some thisComponentConfig \<Rightarrow>
                                  (Inr (Some (wrap (component d)
                                                (mandatoryMethodList thisComponentConfig)
                                                (optionalMethodList thisComponentConfig)
                                                defaultComponentName,
                                              paramsFromSelector d)),
                                   [Wrap (component d)
                                      (mandatoryMethodList thisComponentConfig)
                                      (optionalMethodList thisComponentConfig)
                                      defaultComponentName])))))"

text \<open>
  \<^verbatim>\<open>initialiseComponent\<close>, lines 400 to 411. A method without \<^verbatim>\<open>init\<close> returns \<^verbatim>\<open>undefined\<close>,
  which is \<open>Void\<close>.
\<close>

definition initialiseComponent ::
  "'c beans \<Rightarrow> 'c \<Rightarrow> jsval \<Rightarrow> (jsval \<Rightarrow> 'c \<Rightarrow> jsval) option \<Rightarrow> init_result \<times> 'c event list" where
  "initialiseComponent b c agGridParams customInitParamsCb =
    (case initOf b c of
       None \<Rightarrow> (Void, [WireBean c])
     | Some init \<Rightarrow>
         (case customInitParamsCb of
            None \<Rightarrow> (init agGridParams, [WireBean c, Init c agGridParams])
          | Some cb \<Rightarrow>
              (init (cb agGridParams c),
               [WireBean c, CustomInitParamsCb agGridParams c,
                Init c (cb agGridParams c)])))"

text \<open>Lines 116 to 122: the params \<^verbatim>\<open>createUserComponent\<close> hands to \<^verbatim>\<open>initialiseComponent\<close>.\<close>

definition finalParamsOf :: "'c beans \<Rightarrow> jsval \<Rightarrow> string \<Rightarrow> jsval \<Rightarrow> jsval \<Rightarrow> jsval" where
  "finalParamsOf b definitionObject propertyName paramsFromGrid fromSelector =
    (let finalParams =
           createFinalParams b definitionObject propertyName paramsFromGrid fromSelector;
         finalParams1 =
           set_prop finalParams ''agGridReact''
             (if truthy (getBean b ''agGridReact'')
              then cloneObject b (getBean b ''agGridReact'') else JObj []);
         finalParams2 =
           set_prop finalParams1 ''frameworkComponentWrapper''
             (if truthy (getBean b ''frameworkComponentWrapper'')
              then getBean b ''frameworkComponentWrapper'' else JObj [])
     in finalParams2)"

text \<open>Lines 106 to 108: a falsy holder is replaced by \<^verbatim>\<open>gridOptions\<close>.\<close>

definition holderOrGridOptions :: "'c beans \<Rightarrow> jsval \<Rightarrow> jsval" where
  "holderOrGridOptions b definitionObject =
    (if \<not> truthy definitionObject then JObj (gridOptions b) else definitionObject)"

definition createUserComponent ::
  "'c beans \<Rightarrow> jsval \<Rightarrow> jsval \<Rightarrow> string \<Rightarrow> string option \<Rightarrow> bool \<Rightarrow>
     (jsval \<Rightarrow> 'c \<Rightarrow> jsval) option \<Rightarrow> (error + 'c promise option) \<times> 'c event list" where
  "createUserComponent b definitionObject0 paramsFromGrid propertyName defaultComponentName
       mandatory customInitParamsCb =
    (let definitionObject = holderOrGridOptions b definitionObject0
     in case createComponentInstance b definitionObject propertyName paramsFromGrid
               defaultComponentName mandatory of
          (Inl e, t) \<Rightarrow> (Inl e, t)
        | (Inr None, t) \<Rightarrow> (Inr None, t)
        | (Inr (Some (componentInstance, fromSelector)), t) \<Rightarrow>
            (case initialiseComponent b componentInstance
                    (finalParamsOf b definitionObject propertyName paramsFromGrid fromSelector)
                    customInitParamsCb of
               (Void, t') \<Rightarrow> (Inr (Some (promise_resolve componentInstance)), t @ t')
             | (Deferred asPromise, t') \<Rightarrow>
                 (Inr (Some (promise_map (\<lambda>notRelevant. componentInstance) asPromise)),
                  t @ t')))"

definition createUserComponentFromConcreteClass ::
  "'c beans \<Rightarrow> nat \<Rightarrow> jsval \<Rightarrow> (jsval \<Rightarrow> 'c \<Rightarrow> jsval) option \<Rightarrow> 'c \<times> 'c event list" where
  "createUserComponentFromConcreteClass b clazz agGridParams customInitParamsCb =
    (let internalComponent = construct b clazz
     in (internalComponent,
         New clazz # snd (initialiseComponent b internalComponent agGridParams customInitParamsCb)))"

section \<open>A concrete configuration\<close>

text \<open>
  A small installation on which the theorems below are instantiated. Instances are numbers:
  \<^verbatim>\<open>new\<close> of the class \<open>JFun f\<close> is the instance \<open>f\<close>, and the framework wrapper, when
  \<open>installed\<close>, wraps everything into the instance \<open>900\<close>. The classes \<open>JFun 1\<close> and \<open>JFun 2\<close>
  implement \<^verbatim>\<open>IComponent\<close>; the registry binds \<open>agDefault\<close> (a built-in) and \<open>myFw\<close> (a
  registered framework component); function \<open>5\<close> is a selector, function \<open>6\<close> computes params.
  Instance \<open>1\<close> has a synchronous \<^verbatim>\<open>init\<close>, instance \<open>2\<close> a deferred one, the others none.
\<close>

definition demoBeans :: "bool \<Rightarrow> nat beans" where
  "demoBeans installed =
    \<lparr>gridOptions = [(''api'', JStr ''gridApi'')],
     frameworkComponentWrapper =
       (if installed then Some (\<lambda>raw mandatoryMethods optionalMethods name. 900) else None),
     doesImplementIComponent = (\<lambda>v. v = JFun 1 \<or> v = JFun 2),
     adaptFunction =
       (\<lambda>p f t s. Some \<lparr>component = JFun 3, type = t, source = s, paramsFromSelector = JNull\<rparr>),
     metadataRetrieve =
       (\<lambda>p. Some \<lparr>mandatoryMethodList = [''getGui''], optionalMethodList = [''refresh'']\<rparr>),
     registryRetrieve =
       (\<lambda>n. if n = JStr ''agDefault''
            then Some \<lparr>rc_component = JFun 1, rc_type = PLAIN_JAVASCRIPT, rc_source = RCS_DEFAULT\<rparr>
            else if n = JStr ''myFw''
            then Some \<lparr>rc_component = JFun 7, rc_type = FRAMEWORK, rc_source = RCS_REGISTERED\<rparr>
            else None),
     getBean = (\<lambda>n. JUndefined),
     cloneObject = (\<lambda>v. v),
     callFunction =
       (\<lambda>f args. if f = 5
                 then JObj [(''component'', JStr ''agDefault''),
                            (''params'', JObj [(''a'', JNum 3)])]
                 else if f = 6 then JObj [(''b'', JObj [(''y'', JNum 2)])]
                 else JUndefined),
     construct = (\<lambda>f. f),
     initOf =
       (\<lambda>c. if c = 1 then Some (\<lambda>p. Void)
            else if c = 2 then Some (\<lambda>p. Deferred (InProgress 0 ()))
            else None)\<rparr>"

section \<open>Basic facts\<close>

lemma truthy_not_null: "truthy v \<Longrightarrow> \<not> eq_null v"
  by (cases v) simp_all

text \<open>
  The classification in terms of the holder: for an object holder whose value at \<open>P\<close> is
  \<open>v\<close>, a string is the hardcoded name, \<^verbatim>\<open>null\<close>, \<^verbatim>\<open>undefined\<close> and the booleans record
  nothing, and any other value is the native instance or the native function, as
  \<open>doesImplementIComponent\<close> decides.
\<close>

lemma readSpec_classification:
  assumes "get_prop (JObj ps) P = v"
  shows "hardcodedNameComponent (readSpec b (JObj ps) P) = (if typeof_string v then v else JNull)"
    and "HardcodedJsComponent (readSpec b (JObj ps) P) =
           (if \<not> eq_null v \<and> \<not> typeof_string v \<and> \<not> typeof_boolean v \<and>
               doesImplementIComponent b v then v else JNull)"
    and "hardcodedJsFunction (readSpec b (JObj ps) P) =
           (if \<not> eq_null v \<and> \<not> typeof_string v \<and> \<not> typeof_boolean v \<and>
               \<not> doesImplementIComponent b v then v else JNull)"
    and "HardcodedFwComponent (readSpec b (JObj ps) P) = get_prop (JObj ps) (P @ ''Framework'')"
    and "componentSelectorFunc (readSpec b (JObj ps) P) = get_prop (JObj ps) (P @ ''Selector'')"
  using assms by (cases v; simp add: readSpec_def Let_def del: get_prop.simps)+

lemmas resolve_defs =
  getComponentClassDef_def readSpec_def selectorResultOf_def componentNameToUse_def
  lookupFromRegisteredComponents_def demoBeans_def Let_def

lemma update_absent: "k \<notin> fst ` set al \<Longrightarrow> AList.update k v al = al @ [(k, v)]"
  by (induction al) auto

lemma mergeProps_Cons:
  "mergeProps dest ((k, v) # src) =
     mergeProps (AList.update k (mergeValue (map_of dest k) v) dest) src"
  by (simp add: mergeValue_def)

text \<open>
  The merge, key by key: a key the source lacks keeps its value, a key the source holds gets
  the combination of the two values. An object has each key once, hence the hypothesis.
\<close>

lemma map_of_mergeProps:
  "distinct (map fst src) \<Longrightarrow>
   map_of (mergeProps dest src) k =
     (case map_of src k of
        None \<Rightarrow> map_of dest k
      | Some newValue \<Rightarrow> Some (mergeValue (map_of dest k) newValue))"
proof (induction src arbitrary: dest)
  case Nil
  then show ?case by simp
next
  case (Cons p src)
  obtain k' v where p: "p = (k', v)" by (cases p)
  from Cons.prems p have d: "distinct (map fst src)" and nk: "k' \<notin> fst ` set src" by auto
  from nk have none: "map_of src k' = None" by (simp add: map_of_eq_None_iff)
  let ?dest = "AList.update k' (mergeValue (map_of dest k') v) dest"
  have step: "map_of (mergeProps dest (p # src)) k = map_of (mergeProps ?dest src) k"
    unfolding p mergeProps_Cons ..
  have IH: "map_of (mergeProps ?dest src) k =
     (case map_of src k of
        None \<Rightarrow> map_of ?dest k
      | Some newValue \<Rightarrow> Some (mergeValue (map_of ?dest k) newValue))"
    by (rule Cons.IH[OF d])
  show ?case
  proof (cases "k = k'")
    case True
    have "map_of ?dest k = Some (mergeValue (map_of dest k') v)"
      using True by (simp add: update_conv')
    then show ?thesis
      unfolding step IH using none True by (simp add: p split: option.split)
  next
    case False
    have "map_of ?dest k = map_of dest k"
      using False by (simp add: update_conv')
    then show ?thesis
      unfolding step IH using False by (simp add: p split: option.split)
  qed
qed

lemma mergeDeep_obj: "\<exists>ps. mergeDeep (JObj d) s = JObj ps"
  by (cases s) simp_all

lemma mergeUserParams_obj: "\<exists>ps. mergeUserParams b (JObj d) u pg = JObj ps"
  using mergeDeep_obj by (auto simp: mergeUserParams_def split: jsval.splits)

lemma injectApi_obj: "\<exists>ps. injectApi b (JObj d) = JObj ps"
  by (simp add: injectApi_def)

text \<open>\<^verbatim>\<open>createFinalParams\<close> always returns an object: \<open>res\<close> starts as \<^verbatim>\<open>{}\<close>.\<close>

lemma createFinalParams_obj: "\<exists>ps. createFinalParams b h P pg sp = JObj ps"
proof -
  obtain r1 where r1: "mergeDeep (JObj []) pg = JObj r1" using mergeDeep_obj by blast
  obtain r2 where r2: "mergeUserParams b (JObj r1) (userParamsOf h P) pg = JObj r2"
    using mergeUserParams_obj by blast
  obtain r3 where r3: "mergeDeep (JObj r2) sp = JObj r3" using mergeDeep_obj by blast
  show ?thesis
    unfolding createFinalParams_def Let_def r1 r2 r3 by (rule injectApi_obj)
qed

section \<open>Resolution: precedence\<close>

text \<open>
  C1. Whenever \<^verbatim>\<open>getComponentClassDef\<close> returns, what it returns follows this precedence:
  with a hardcoded framework reference, the framework descriptor of that reference; else
  with a hardcoded native instance, the plain descriptor of that instance; else with a
  hardcoded native function, what \<open>adaptFunction\<close> makes of it; else the registry's entry for
  a name, which is the component name the selector returned, else the hardcoded string name,
  else the default component name (and \<^verbatim>\<open>null\<close> when there is no name at all), with the
  selector's params.
\<close>

theorem getComponentClassDef_precedence:
  assumes "getComponentClassDef b h P params d = Inr r"
  shows
    "(truthy (HardcodedFwComponent (readSpec b h P)) \<longrightarrow>
        r = Some \<lparr>component = HardcodedFwComponent (readSpec b h P), type = FRAMEWORK,
                  source = HARDCODED, paramsFromSelector = JNull\<rparr>) \<and>
     (\<not> truthy (HardcodedFwComponent (readSpec b h P)) \<and>
      truthy (HardcodedJsComponent (readSpec b h P)) \<longrightarrow>
        r = Some \<lparr>component = HardcodedJsComponent (readSpec b h P), type = PLAIN_JAVASCRIPT,
                  source = HARDCODED, paramsFromSelector = JNull\<rparr>) \<and>
     (\<not> truthy (HardcodedFwComponent (readSpec b h P)) \<and>
      \<not> truthy (HardcodedJsComponent (readSpec b h P)) \<and>
      truthy (hardcodedJsFunction (readSpec b h P)) \<longrightarrow>
        r = adaptFunction b P (hardcodedJsFunction (readSpec b h P)) PLAIN_JAVASCRIPT HARDCODED) \<and>
     (\<not> truthy (HardcodedFwComponent (readSpec b h P)) \<and>
      \<not> truthy (HardcodedJsComponent (readSpec b h P)) \<and>
      \<not> truthy (hardcodedJsFunction (readSpec b h P)) \<longrightarrow>
        (\<exists>selectorResult name.
           selectorResultOf b (componentSelectorFunc (readSpec b h P)) (paramsOrNull params) =
             Inr selectorResult \<and>
           name =
             (if truthy selectorResult \<and> truthy (get_prop selectorResult ''component'')
              then get_prop selectorResult ''component''
              else if truthy (hardcodedNameComponent (readSpec b h P))
              then hardcodedNameComponent (readSpec b h P)
              else opt_string d) \<and>
           (if \<not> truthy name then r = None
            else \<exists>reg. lookupFromRegisteredComponents b P name = Some reg \<and>
                   r = Some \<lparr>component = component reg, type = type reg, source = source reg,
                             paramsFromSelector =
                               (if truthy selectorResult then get_prop selectorResult ''params''
                                else JNull)\<rparr>)))"
  using assms
  unfolding getComponentClassDef_def Let_def componentNameToUse_def
  by (auto split: if_splits sum.splits option.splits)

text \<open>
  The theorem at six holders of the concrete configuration, one for each way of winning:
  a framework reference, a native instance, a native function, the selector's name (over
  the default name), the hardcoded name (over the default name), the default name.
\<close>

theorem getComponentClassDef_precedence_witness:
  "getComponentClassDef (demoBeans True) (JObj [(''cellRendererFramework'', JFun 7)])
       ''cellRenderer'' JNull (Some ''agDefault'') =
     Inr (Some \<lparr>component = JFun 7, type = FRAMEWORK, source = HARDCODED,
                paramsFromSelector = JNull\<rparr>) \<and>
   getComponentClassDef (demoBeans True) (JObj [(''cellRenderer'', JFun 1)])
       ''cellRenderer'' JNull (Some ''agDefault'') =
     Inr (Some \<lparr>component = JFun 1, type = PLAIN_JAVASCRIPT, source = HARDCODED,
                paramsFromSelector = JNull\<rparr>) \<and>
   getComponentClassDef (demoBeans True) (JObj [(''cellRenderer'', JFun 4)])
       ''cellRenderer'' JNull (Some ''agDefault'') =
     Inr (Some \<lparr>component = JFun 3, type = PLAIN_JAVASCRIPT, source = HARDCODED,
                paramsFromSelector = JNull\<rparr>) \<and>
   getComponentClassDef (demoBeans True) (JObj [(''cellRendererSelector'', JFun 5)])
       ''cellRenderer'' JNull (Some ''myFw'') =
     Inr (Some \<lparr>component = JFun 1, type = PLAIN_JAVASCRIPT, source = DEFAULT,
                paramsFromSelector = JObj [(''a'', JNum 3)]\<rparr>) \<and>
   getComponentClassDef (demoBeans True) (JObj [(''cellRenderer'', JStr ''myFw'')])
       ''cellRenderer'' JNull (Some ''agDefault'') =
     Inr (Some \<lparr>component = JFun 7, type = FRAMEWORK, source = REGISTERED_BY_NAME,
                paramsFromSelector = JNull\<rparr>) \<and>
   getComponentClassDef (demoBeans True) (JObj [])
       ''cellRenderer'' JNull (Some ''agDefault'') =
     Inr (Some \<lparr>component = JFun 1, type = PLAIN_JAVASCRIPT, source = DEFAULT,
                paramsFromSelector = JNull\<rparr>)"
proof -
  have h1: "getComponentClassDef (demoBeans True) (JObj [(''cellRendererFramework'', JFun 7)])
       ''cellRenderer'' JNull (Some ''agDefault'') =
     Inr (Some \<lparr>component = JFun 7, type = FRAMEWORK, source = HARDCODED,
                paramsFromSelector = JNull\<rparr>)"
    by (simp add: resolve_defs)
  have h2: "getComponentClassDef (demoBeans True) (JObj [(''cellRenderer'', JFun 1)])
       ''cellRenderer'' JNull (Some ''agDefault'') =
     Inr (Some \<lparr>component = JFun 1, type = PLAIN_JAVASCRIPT, source = HARDCODED,
                paramsFromSelector = JNull\<rparr>)"
    by (simp add: resolve_defs)
  have h3: "getComponentClassDef (demoBeans True) (JObj [(''cellRenderer'', JFun 4)])
       ''cellRenderer'' JNull (Some ''agDefault'') =
     Inr (Some \<lparr>component = JFun 3, type = PLAIN_JAVASCRIPT, source = HARDCODED,
                paramsFromSelector = JNull\<rparr>)"
    by (simp add: resolve_defs)
  have h4: "getComponentClassDef (demoBeans True) (JObj [(''cellRendererSelector'', JFun 5)])
       ''cellRenderer'' JNull (Some ''myFw'') =
     Inr (Some \<lparr>component = JFun 1, type = PLAIN_JAVASCRIPT, source = DEFAULT,
                paramsFromSelector = JObj [(''a'', JNum 3)]\<rparr>)"
    by (simp add: resolve_defs)
  have h5: "getComponentClassDef (demoBeans True) (JObj [(''cellRenderer'', JStr ''myFw'')])
       ''cellRenderer'' JNull (Some ''agDefault'') =
     Inr (Some \<lparr>component = JFun 7, type = FRAMEWORK, source = REGISTERED_BY_NAME,
                paramsFromSelector = JNull\<rparr>)"
    by (simp add: resolve_defs)
  have h6: "getComponentClassDef (demoBeans True) (JObj [])
       ''cellRenderer'' JNull (Some ''agDefault'') =
     Inr (Some \<lparr>component = JFun 1, type = PLAIN_JAVASCRIPT, source = DEFAULT,
                paramsFromSelector = JNull\<rparr>)"
    by (simp add: resolve_defs)
  note getComponentClassDef_precedence [OF h1] getComponentClassDef_precedence [OF h2]
    getComponentClassDef_precedence [OF h3] getComponentClassDef_precedence [OF h4]
    getComponentClassDef_precedence [OF h5] getComponentClassDef_precedence [OF h6]
  with h1 h2 h3 h4 h5 h6 show ?thesis by simp
qed

section \<open>Parameter merging\<close>

text \<open>
  C2. \<^verbatim>\<open>createFinalParams\<close> merges, into an empty object and in this order, the caller's
  params, then the holder's \<^verbatim>\<open>P + "Params"\<close> entry (the result of calling it on the caller's
  params when it is a function, itself when it is an object, nothing otherwise), then the
  selector's params, and then injects the \<^verbatim>\<open>api\<close> key. Each merge step works key by key: a
  key only the earlier object has keeps its value; a key the later object has gets the later
  value, except that two objects under the same key are merged recursively. When the merged
  object has no \<^verbatim>\<open>api\<close> key, \<^verbatim>\<open>gridOptions.api\<close> is appended under that key. The example of the
  specification: \<^verbatim>\<open>{a:1, b:{x:1}}\<close>, \<^verbatim>\<open>{b:{y:2}}\<close> and \<^verbatim>\<open>{a:3}\<close> give
  \<^verbatim>\<open>{a:3, b:{x:1, y:2}, api: gridOptions.api}\<close>, for every property name and all beans.
\<close>

theorem createFinalParams_deep_merge:
  "createFinalParams b h P callerParams selectorParams =
     injectApi b
       (mergeDeep
          (mergeDeep (mergeDeep (JObj []) callerParams)
             (case userParamsOf h P of
                JFun f \<Rightarrow> callFunction b f [callerParams]
              | JObj ps \<Rightarrow> JObj ps
              | _ \<Rightarrow> JUndefined))
          selectorParams) \<and>
   (distinct (map fst src) \<longrightarrow>
      map_of (mergeProps dest src) k =
        (case map_of src k of
           None \<Rightarrow> map_of dest k
         | Some newValue \<Rightarrow> Some (mergeValue (map_of dest k) newValue))) \<and>
   (map_of res ''api'' = None \<longrightarrow>
      injectApi b (JObj res) = JObj (res @ [(''api'', get_prop (JObj (gridOptions b)) ''api'')])) \<and>
   createFinalParams b (JObj [(P @ ''Params'', JObj [(''b'', JObj [(''y'', JNum 2)])])]) P
       (JObj [(''a'', JNum 1), (''b'', JObj [(''x'', JNum 1)])]) (JObj [(''a'', JNum 3)]) =
     JObj [(''a'', JNum 3), (''b'', JObj [(''x'', JNum 1), (''y'', JNum 2)]),
           (''api'', get_prop (JObj (gridOptions b)) ''api'')]"
proof (intro conjI impI)
  show "createFinalParams b h P callerParams selectorParams =
     injectApi b
       (mergeDeep
          (mergeDeep (mergeDeep (JObj []) callerParams)
             (case userParamsOf h P of
                JFun f \<Rightarrow> callFunction b f [callerParams]
              | JObj ps \<Rightarrow> JObj ps
              | _ \<Rightarrow> JUndefined))
          selectorParams)"
    by (cases "userParamsOf h P")
       (simp_all add: createFinalParams_def mergeUserParams_def Let_def)
next
  assume "distinct (map fst src)"
  then show "map_of (mergeProps dest src) k =
        (case map_of src k of
           None \<Rightarrow> map_of dest k
         | Some newValue \<Rightarrow> Some (mergeValue (map_of dest k) newValue))"
    by (rule map_of_mergeProps)
next
  assume "map_of res ''api'' = None"
  then have "''api'' \<notin> fst ` set res" by (simp add: map_of_eq_None_iff)
  then have "AList.update ''api'' v res = res @ [(''api'', v)]" for v
    by (rule update_absent)
  with \<open>map_of res ''api'' = None\<close>
  show "injectApi b (JObj res) = JObj (res @ [(''api'', get_prop (JObj (gridOptions b)) ''api'')])"
    by (simp add: injectApi_def)
next
  show "createFinalParams b (JObj [(P @ ''Params'', JObj [(''b'', JObj [(''y'', JNum 2)])])]) P
       (JObj [(''a'', JNum 1), (''b'', JObj [(''x'', JNum 1)])]) (JObj [(''a'', JNum 3)]) =
     JObj [(''a'', JNum 3), (''b'', JObj [(''x'', JNum 1), (''y'', JNum 2)]),
           (''api'', get_prop (JObj (gridOptions b)) ''api'')]"
    by (simp add: createFinalParams_def mergeUserParams_def userParamsOf_def injectApi_def Let_def)
qed

text \<open>
  The theorem on the example, with the holder's params computed by a function (function
  \<open>6\<close> of the concrete configuration returns \<^verbatim>\<open>{b:{y:2}}\<close>).
\<close>

theorem createFinalParams_deep_merge_witness:
  "distinct (map fst [(''b'', JObj [(''y'', JNum 2)])]) \<and>
   map_of (mergeProps [(''a'', JNum 1), (''b'', JObj [(''x'', JNum 1)])]
             [(''b'', JObj [(''y'', JNum 2)])]) ''b'' =
     Some (JObj [(''x'', JNum 1), (''y'', JNum 2)]) \<and>
   map_of [(''a'', JNum 3), (''b'', JObj [(''x'', JNum 1), (''y'', JNum 2)])] ''api'' = None \<and>
   injectApi (demoBeans True)
       (JObj [(''a'', JNum 3), (''b'', JObj [(''x'', JNum 1), (''y'', JNum 2)])]) =
     JObj [(''a'', JNum 3), (''b'', JObj [(''x'', JNum 1), (''y'', JNum 2)]),
           (''api'', JStr ''gridApi'')] \<and>
   createFinalParams (demoBeans True) (JObj [(''cellRendererParams'', JFun 6)]) ''cellRenderer''
       (JObj [(''a'', JNum 1), (''b'', JObj [(''x'', JNum 1)])]) (JObj [(''a'', JNum 3)]) =
     JObj [(''a'', JNum 3), (''b'', JObj [(''x'', JNum 1), (''y'', JNum 2)]),
           (''api'', JStr ''gridApi'')]"
  using createFinalParams_deep_merge
    [of "demoBeans True" "JObj [(''cellRendererParams'', JFun 6)]" "''cellRenderer''"
        "JObj [(''a'', JNum 1), (''b'', JObj [(''x'', JNum 1)])]" "JObj [(''a'', JNum 3)]"
        "[(''b'', JObj [(''y'', JNum 2)])]"
        "[(''a'', JNum 1), (''b'', JObj [(''x'', JNum 1)])]" "''b''"
        "[(''a'', JNum 3), (''b'', JObj [(''x'', JNum 1), (''y'', JNum 2)])]"]
  by (simp add: mergeValue_def userParamsOf_def injectApi_def demoBeans_def)

section \<open>Resolution: conflicting specifications\<close>

lemma readSpec_present:
  assumes "truthy (hardcodedNameComponent (readSpec b h P)) \<or>
           truthy (HardcodedJsComponent (readSpec b h P)) \<or>
           truthy (hardcodedJsFunction (readSpec b h P)) \<or>
           truthy (HardcodedFwComponent (readSpec b h P)) \<or>
           truthy (componentSelectorFunc (readSpec b h P))"
  shows "truthy h"
  using assms by (cases h) (auto simp: readSpec_def Let_def split: if_splits)

lemma createComponentInstance_error:
  "getComponentClassDef b h P params d = Inl e \<Longrightarrow>
   createComponentInstance b h P params d m = (Inl e, [])"
  by (simp add: createComponentInstance_def)

lemma createUserComponent_error:
  "truthy h \<Longrightarrow> getComponentClassDef b h P params d = Inl e \<Longrightarrow>
   createUserComponent b h params P d m cb = (Inl e, [])"
  by (simp add: createUserComponent_def holderOrGridOptions_def createComponentInstance_error)

lemmas create_defs =
  createUserComponent_def holderOrGridOptions_def createComponentInstance_def
  initialiseComponent_def
  finalParamsOf_def createFinalParams_def mergeUserParams_def userParamsOf_def injectApi_def

text \<open>
  C3, as amended. Resolution fails with one of the two \<open>ConflictingSpecification\<close> errors,
  and \<^verbatim>\<open>createUserComponent\<close> does nothing else (no instance is made, nothing is wired or
  initialised), whenever a framework reference coexists with a hardcoded name, native
  instance or native function that is truthy, and whenever a selector coexists with one of
  these three, or with a framework reference while a framework wrapper is installed.
  A form counts as present when its value is truthy, as the checks of the source read it:
  the empty string is no name.
\<close>

theorem conflicting_specification:
  assumes "s = readSpec b h P"
    and "(truthy (HardcodedFwComponent s) \<and>
            (truthy (hardcodedNameComponent s) \<or> truthy (HardcodedJsComponent s) \<or>
             truthy (hardcodedJsFunction s))) \<or>
         (truthy (componentSelectorFunc s) \<and>
            (truthy (hardcodedNameComponent s) \<or> truthy (HardcodedJsComponent s) \<or>
             truthy (hardcodedJsFunction s) \<or>
             (truthy (HardcodedFwComponent s) \<and> frameworkComponentWrapper b \<noteq> None)))"
  shows "\<exists>e. ConflictingSpecification e \<and>
             getComponentClassDef b h P params d = Inl e \<and>
             createComponentInstance b h P params d mandatory = (Inl e, []) \<and>
             createUserComponent b h params P d mandatory cb = (Inl e, [])"
proof -
  from assms have h: "truthy h" using readSpec_present[of b h P] by blast
  from assms have "getComponentClassDef b h P params d = Inl (SpecifiedTwice P) \<or>
      getComponentClassDef b h P params d = Inl (SelectorAndComponent P)"
    by (auto simp: getComponentClassDef_def Let_def)
  then have "\<exists>e. ConflictingSpecification e \<and> getComponentClassDef b h P params d = Inl e"
    by auto
  then obtain e where e: "ConflictingSpecification e"
      "getComponentClassDef b h P params d = Inl e"
    by blast
  with h show ?thesis
    using createComponentInstance_error createUserComponent_error by blast
qed

theorem conflicting_specification_witness:
  "truthy (HardcodedFwComponent (readSpec (demoBeans True)
      (JObj [(''cellRenderer'', JStr ''agDefault''), (''cellRendererFramework'', JFun 7)])
      ''cellRenderer'')) \<and>
   truthy (hardcodedNameComponent (readSpec (demoBeans True)
      (JObj [(''cellRenderer'', JStr ''agDefault''), (''cellRendererFramework'', JFun 7)])
      ''cellRenderer'')) \<and>
   createUserComponent (demoBeans True)
      (JObj [(''cellRenderer'', JStr ''agDefault''), (''cellRendererFramework'', JFun 7)])
      JNull ''cellRenderer'' None True None =
     (Inl (SpecifiedTwice ''cellRenderer''), []) \<and>
   truthy (componentSelectorFunc (readSpec (demoBeans True)
      (JObj [(''cellRendererSelector'', JFun 5), (''cellRendererFramework'', JFun 7)])
      ''cellRenderer'')) \<and>
   createUserComponent (demoBeans True)
      (JObj [(''cellRendererSelector'', JFun 5), (''cellRendererFramework'', JFun 7)])
      JNull ''cellRenderer'' None True None =
     (Inl (SelectorAndComponent ''cellRenderer''), [])"
  using conflicting_specification
    [OF refl, of "demoBeans True"
       "JObj [(''cellRenderer'', JStr ''agDefault''), (''cellRendererFramework'', JFun 7)]"
       "''cellRenderer''" JNull None True None]
    conflicting_specification
    [OF refl, of "demoBeans True"
       "JObj [(''cellRendererSelector'', JFun 5), (''cellRendererFramework'', JFun 7)]"
       "''cellRenderer''" JNull None True None]
  by (simp add: resolve_defs create_defs)

text \<open>
  C3 as stated fails twice. A selector next to a framework reference, with no framework wrapper
  installed, raises the error about the missing framework version, which the second check
  throws before the third is reached. And the empty string as the hardcoded name next to a
  framework reference raises nothing: the framework component is wrapped and returned.
\<close>

theorem conflicting_specification_counterexample:
  "getComponentClassDef (demoBeans False)
      (JObj [(''cellRendererSelector'', JFun 5), (''cellRendererFramework'', JFun 7)])
      ''cellRenderer'' JNull None = Inl (NotFrameworkVersion ''cellRenderer'') \<and>
   \<not> ConflictingSpecification (NotFrameworkVersion ''cellRenderer'') \<and>
   createUserComponent (demoBeans True)
      (JObj [(''cellRenderer'', JStr ''''), (''cellRendererFramework'', JFun 7)])
      JNull ''cellRenderer'' None True None =
     (Inr (Some (Resolved 900)),
      [Wrap (JFun 7) [''getGui''] [''refresh''] None, WireBean 900])"
  by (simp add: resolve_defs create_defs)

section \<open>Resolution: the value true\<close>

text \<open>
  C8. When the holder's value at \<open>P\<close> is the boolean \<^verbatim>\<open>true\<close>, no hardcoded name, native
  instance or native function is recorded, the classification is the one of the holder
  without the property \<open>P\<close>, and so is the result of \<^verbatim>\<open>getComponentClassDef\<close>.
\<close>

theorem true_means_default:
  assumes "map_of h P = Some (JBool True)"
  shows "hardcodedNameComponent (readSpec b (JObj h) P) = JNull \<and>
         HardcodedJsComponent (readSpec b (JObj h) P) = JNull \<and>
         hardcodedJsFunction (readSpec b (JObj h) P) = JNull \<and>
         readSpec b (JObj h) P = readSpec b (JObj (AList.delete P h)) P \<and>
         getComponentClassDef b (JObj h) P params d =
           getComponentClassDef b (JObj (AList.delete P h)) P params d"
proof -
  have v: "get_prop (JObj h) P = JBool True"
    using assms by simp
  have v': "get_prop (JObj (AList.delete P h)) P = JUndefined"
    by (simp add: delete_conv')
  have others: "get_prop (JObj (AList.delete P h)) (P @ x) = get_prop (JObj h) (P @ x)"
    if "x \<noteq> []" for x
    using that by (simp add: delete_conv')
  have r: "readSpec b (JObj h) P = readSpec b (JObj (AList.delete P h)) P"
    unfolding readSpec_def Let_def v v' by (simp add: others del: get_prop.simps)
  have n: "hardcodedNameComponent (readSpec b (JObj h) P) = JNull"
      "HardcodedJsComponent (readSpec b (JObj h) P) = JNull"
      "hardcodedJsFunction (readSpec b (JObj h) P) = JNull"
    unfolding readSpec_def Let_def v by simp_all
  have g: "getComponentClassDef b (JObj h) P params d =
           getComponentClassDef b (JObj (AList.delete P h)) P params d"
    unfolding getComponentClassDef_def r ..
  from n r g show ?thesis by blast
qed

theorem true_means_default_witness:
  "map_of [(''filter'', JBool True)] ''filter'' = Some (JBool True) \<and>
   getComponentClassDef (demoBeans True) (JObj [(''filter'', JBool True)]) ''filter'' JNull
       (Some ''agDefault'') =
     getComponentClassDef (demoBeans True) (JObj []) ''filter'' JNull (Some ''agDefault'') \<and>
   getComponentClassDef (demoBeans True) (JObj [(''filter'', JBool True)]) ''filter'' JNull
       (Some ''agDefault'') =
     Inr (Some \<lparr>component = JFun 1, type = PLAIN_JAVASCRIPT, source = DEFAULT,
                paramsFromSelector = JNull\<rparr>)"
  using true_means_default
    [of "[(''filter'', JBool True)]" "''filter''" "demoBeans True" JNull "Some ''agDefault''"]
  by (simp add: resolve_defs)

section \<open>Resolution: nothing to resolve\<close>

text \<open>
  With no hardcoded form, no selector and no default name, \<^verbatim>\<open>getComponentClassDef\<close> returns
  \<^verbatim>\<open>null\<close> (line 283), and with \<^verbatim>\<open>mandatory = false\<close> nothing is created and nothing is logged.
\<close>

lemma nothing_to_resolve:
  assumes "\<not> truthy (HardcodedFwComponent (readSpec b h P))"
    and "\<not> truthy (HardcodedJsComponent (readSpec b h P))"
    and "\<not> truthy (hardcodedJsFunction (readSpec b h P))"
    and "\<not> truthy (hardcodedNameComponent (readSpec b h P))"
    and "\<not> truthy (componentSelectorFunc (readSpec b h P))"
  shows "getComponentClassDef b h P params None = Inr None"
    and "createComponentInstance b h P params None False = (Inr None, [])"
  using assms
  by (simp_all add: createComponentInstance_def getComponentClassDef_def selectorResultOf_def
        componentNameToUse_def)

text \<open>
  C4, at an input where it fails. The default name \<open>nope\<close> is bound to nothing in the
  registry, so \<^verbatim>\<open>lookupFromRegisteredComponents\<close> returns \<^verbatim>\<open>null\<close> (line 300); line 288 then
  reads \<^verbatim>\<open>registeredCompClassDef.type\<close> of that \<^verbatim>\<open>null\<close>. With \<^verbatim>\<open>mandatory = false\<close> the call
  raises a \<^verbatim>\<open>TypeError\<close> where the claim has it return none.
\<close>

theorem unbound_name_raises:
  "registryRetrieve (demoBeans True) (JStr ''nope'') = None \<and>
   getComponentClassDef (demoBeans True) (JObj []) ''cellRenderer'' JNull (Some ''nope'') =
     Inl TypeError \<and>
   createUserComponent (demoBeans True) (JObj []) JNull ''cellRenderer'' (Some ''nope'') False None =
     (Inl TypeError, [])"
  by (simp add: resolve_defs create_defs)

section \<open>Framework components without a framework wrapper\<close>

text \<open>
  A hardcoded framework reference (and no other hardcoded form) without a framework wrapper:
  the second check of \<^verbatim>\<open>getComponentClassDef\<close> raises the error about the missing framework
  version, and \<^verbatim>\<open>createUserComponent\<close> does nothing else.
\<close>

lemma hardcoded_framework_without_wrapper:
  assumes "truthy (HardcodedFwComponent (readSpec b h P))"
    and "\<not> truthy (HardcodedJsComponent (readSpec b h P))"
    and "\<not> truthy (hardcodedJsFunction (readSpec b h P))"
    and "\<not> truthy (hardcodedNameComponent (readSpec b h P))"
    and "frameworkComponentWrapper b = None"
  shows "getComponentClassDef b h P params d = Inl (NotFrameworkVersion P)"
    and "createUserComponent b h params P d mandatory cb = (Inl (NotFrameworkVersion P), [])"
proof -
  show g: "getComponentClassDef b h P params d = Inl (NotFrameworkVersion P)"
    using assms by (simp add: getComponentClassDef_def)
  from assms(1) have "truthy h" using readSpec_present[of b h P] by blast
  with g show "createUserComponent b h params P d mandatory cb = (Inl (NotFrameworkVersion P), [])"
    by (simp add: createUserComponent_error)
qed

text \<open>
  C5, at an input where it fails. The default name \<open>myFw\<close> is registered as a framework
  component, so the winning descriptor has framework kind, and no framework wrapper is
  installed. The check of line 226 only looks at the hardcoded framework reference;
  \<^verbatim>\<open>createComponentInstance\<close> then reads \<^verbatim>\<open>this.frameworkComponentWrapper.wrap\<close> of
  \<^verbatim>\<open>undefined\<close> (line 391). Nothing is instantiated, but the error is a \<^verbatim>\<open>TypeError\<close>, not the
  error about the missing framework version.
\<close>

theorem registered_framework_without_wrapper:
  "frameworkComponentWrapper (demoBeans False) = None \<and>
   getComponentClassDef (demoBeans False) (JObj []) ''cellRenderer'' JNull (Some ''myFw'') =
     Inr (Some \<lparr>component = JFun 7, type = FRAMEWORK, source = REGISTERED_BY_NAME,
                paramsFromSelector = JNull\<rparr>) \<and>
   createUserComponent (demoBeans False) (JObj []) JNull ''cellRenderer'' (Some ''myFw'') True None =
     (Inl TypeError, []) \<and>
   \<not> MissingFrameworkAdapter TypeError"
  by (simp add: resolve_defs create_defs)

section \<open>Initialisation\<close>

lemma createUserComponent_created:
  assumes "createComponentInstance b (holderOrGridOptions b h) P pg d m =
             (Inr (Some (inst, sp)), t)"
  shows "createUserComponent b h pg P d m cb =
           (case initialiseComponent b inst
                   (finalParamsOf b (holderOrGridOptions b h) P pg sp) cb of
              (Void, t') \<Rightarrow> (Inr (Some (Resolved inst)), t @ t')
            | (Deferred asPromise, t') \<Rightarrow>
                (Inr (Some (promise_map (\<lambda>notRelevant. inst) asPromise)), t @ t'))"
  using assms
  by (simp add: createUserComponent_def Let_def split: prod.splits init_result.splits)

text \<open>
  C6. Once \<^verbatim>\<open>createComponentInstance\<close> has made the instance, \<^verbatim>\<open>createUserComponent\<close> returns
  a future. The future is already resolved with the instance when the instance has no
  \<^verbatim>\<open>init\<close>, when \<^verbatim>\<open>init\<close> returns nothing, and when it returns a future that is itself resolved.
  When \<^verbatim>\<open>init\<close> returns a future waiting for a deferred task, the returned future waits for
  the same task and resolves to the instance when that task completes. \<open>args\<close> is what
  \<^verbatim>\<open>init\<close> is called with.
\<close>

theorem createUserComponent_future:
  assumes "createComponentInstance b (holderOrGridOptions b h) P pg d m =
             (Inr (Some (inst, sp)), t)"
    and "args = (case cb of
                   None \<Rightarrow> finalParamsOf b (holderOrGridOptions b h) P pg sp
                 | Some f \<Rightarrow> f (finalParamsOf b (holderOrGridOptions b h) P pg sp) inst)"
  shows
    "(initOf b inst = None \<longrightarrow>
        fst (createUserComponent b h pg P d m cb) = Inr (Some (Resolved inst))) \<and>
     (\<forall>init. initOf b inst = Some init \<and> init args = Void \<longrightarrow>
        fst (createUserComponent b h pg P d m cb) = Inr (Some (Resolved inst))) \<and>
     (\<forall>init. initOf b inst = Some init \<and> init args = Deferred (Resolved ()) \<longrightarrow>
        fst (createUserComponent b h pg P d m cb) = Inr (Some (Resolved inst))) \<and>
     (\<forall>init task. initOf b inst = Some init \<and> init args = Deferred (InProgress task ()) \<longrightarrow>
        fst (createUserComponent b h pg P d m cb) = Inr (Some (InProgress task inst)) \<and>
        complete task (InProgress task inst) = Resolved inst)"
  unfolding createUserComponent_created[OF assms(1)] assms(2)
  by (cases cb) (auto simp: initialiseComponent_def)

text \<open>
  The theorem on three holders of the concrete configuration: class \<open>2\<close> (deferred
  \<^verbatim>\<open>init\<close>), class \<open>1\<close> (synchronous \<^verbatim>\<open>init\<close>) and the function \<open>4\<close>, whose adapted class
  \<open>3\<close> has no \<^verbatim>\<open>init\<close>.
\<close>

theorem createUserComponent_future_witness:
  "createComponentInstance (demoBeans True)
       (holderOrGridOptions (demoBeans True) (JObj [(''cellRenderer'', JFun 2)]))
       ''cellRenderer'' JNull None True = (Inr (Some (2, JNull)), [New 2]) \<and>
   fst (createUserComponent (demoBeans True) (JObj [(''cellRenderer'', JFun 2)]) JNull
          ''cellRenderer'' None True None) = Inr (Some (InProgress 0 2)) \<and>
   complete 0 (InProgress 0 (2::nat)) = Resolved 2 \<and>
   createComponentInstance (demoBeans True)
       (holderOrGridOptions (demoBeans True) (JObj [(''cellRenderer'', JFun 1)]))
       ''cellRenderer'' JNull None True = (Inr (Some (1, JNull)), [New 1]) \<and>
   fst (createUserComponent (demoBeans True) (JObj [(''cellRenderer'', JFun 1)]) JNull
          ''cellRenderer'' None True None) = Inr (Some (Resolved 1)) \<and>
   createComponentInstance (demoBeans True)
       (holderOrGridOptions (demoBeans True) (JObj [(''cellRenderer'', JFun 4)]))
       ''cellRenderer'' JNull None True = (Inr (Some (3, JNull)), [New 3]) \<and>
   initOf (demoBeans True) 3 = None \<and>
   fst (createUserComponent (demoBeans True) (JObj [(''cellRenderer'', JFun 4)]) JNull
          ''cellRenderer'' None True None) = Inr (Some (Resolved 3))"
proof -
  have c2: "createComponentInstance (demoBeans True)
       (holderOrGridOptions (demoBeans True) (JObj [(''cellRenderer'', JFun 2)]))
       ''cellRenderer'' JNull None True = (Inr (Some (2, JNull)), [New 2])"
    by (simp add: resolve_defs create_defs)
  have c1: "createComponentInstance (demoBeans True)
       (holderOrGridOptions (demoBeans True) (JObj [(''cellRenderer'', JFun 1)]))
       ''cellRenderer'' JNull None True = (Inr (Some (1, JNull)), [New 1])"
    by (simp add: resolve_defs create_defs)
  have c3: "createComponentInstance (demoBeans True)
       (holderOrGridOptions (demoBeans True) (JObj [(''cellRenderer'', JFun 4)]))
       ''cellRenderer'' JNull None True = (Inr (Some (3, JNull)), [New 3])"
    by (simp add: resolve_defs create_defs)
  have i: "initOf (demoBeans True) 1 = Some (\<lambda>p. Void)"
      "initOf (demoBeans True) 2 = Some (\<lambda>p. Deferred (InProgress 0 ()))"
      "initOf (demoBeans True) 3 = None"
    by (simp_all add: demoBeans_def)
  note createUserComponent_future [OF c2 refl, of None]
    createUserComponent_future [OF c1 refl, of None]
    createUserComponent_future [OF c3 refl, of None]
  with c1 c2 c3 i show ?thesis by simp
qed

text \<open>
  C7, as amended. For an instance with an \<^verbatim>\<open>init\<close> method: a supplied \<^verbatim>\<open>customInitParamsCb\<close> is
  called once, after the wiring, with the params handed to \<^verbatim>\<open>initialiseComponent\<close> and the
  instance, and \<^verbatim>\<open>init\<close> is called with what the callback returned; without a callback \<^verbatim>\<open>init\<close>
  is called with those params unchanged. \<^verbatim>\<open>createUserComponentFromConcreteClass\<close> hands its
  \<^verbatim>\<open>agGridParams\<close> on. \<^verbatim>\<open>createUserComponent\<close> hands on the result of \<^verbatim>\<open>createFinalParams\<close> with
  the keys \<^verbatim>\<open>agGridReact\<close> and \<^verbatim>\<open>frameworkComponentWrapper\<close> set on top (lines 120 to 122): the
  callback, and without a callback \<^verbatim>\<open>init\<close>, see these params and the new instance.
\<close>

theorem customInitParamsCb_params:
  assumes "initOf b c = Some init"
  shows
    "initialiseComponent b c agGridParams (Some cb) =
       (init (cb agGridParams c),
        [WireBean c, CustomInitParamsCb agGridParams c, Init c (cb agGridParams c)]) \<and>
     initialiseComponent b c agGridParams None =
       (init agGridParams, [WireBean c, Init c agGridParams]) \<and>
     (construct b clazz = c \<longrightarrow>
        snd (createUserComponentFromConcreteClass b clazz agGridParams (Some cb)) =
          [New clazz, WireBean c, CustomInitParamsCb agGridParams c,
           Init c (cb agGridParams c)] \<and>
        snd (createUserComponentFromConcreteClass b clazz agGridParams None) =
          [New clazz, WireBean c, Init c agGridParams]) \<and>
     (createComponentInstance b (holderOrGridOptions b h) P pg d m =
        (Inr (Some (c, sp)), t) \<longrightarrow>
        snd (createUserComponent b h pg P d m (Some cb)) =
          t @ [WireBean c,
               CustomInitParamsCb (finalParamsOf b (holderOrGridOptions b h) P pg sp) c,
               Init c (cb (finalParamsOf b (holderOrGridOptions b h) P pg sp) c)] \<and>
        snd (createUserComponent b h pg P d m None) =
          t @ [WireBean c, Init c (finalParamsOf b (holderOrGridOptions b h) P pg sp)] \<and>
        get_prop (finalParamsOf b (holderOrGridOptions b h) P pg sp) ''agGridReact'' =
          (if truthy (getBean b ''agGridReact'') then cloneObject b (getBean b ''agGridReact'')
           else JObj []) \<and>
        get_prop (finalParamsOf b (holderOrGridOptions b h) P pg sp)
            ''frameworkComponentWrapper'' =
          (if truthy (getBean b ''frameworkComponentWrapper'')
           then getBean b ''frameworkComponentWrapper'' else JObj []) \<and>
        (\<forall>k. k \<noteq> ''agGridReact'' \<and> k \<noteq> ''frameworkComponentWrapper'' \<longrightarrow>
           get_prop (finalParamsOf b (holderOrGridOptions b h) P pg sp) k =
           get_prop (createFinalParams b (holderOrGridOptions b h) P pg sp) k))"
proof -
  let ?fp = "finalParamsOf b (holderOrGridOptions b h) P pg sp"
  have i: "initialiseComponent b c p (Some cb) =
       (init (cb p c), [WireBean c, CustomInitParamsCb p c, Init c (cb p c)])"
    "initialiseComponent b c p None = (init p, [WireBean c, Init c p])" for p
    using assms by (simp_all add: initialiseComponent_def)
  have cc: "construct b clazz = c \<longrightarrow>
        snd (createUserComponentFromConcreteClass b clazz agGridParams (Some cb)) =
          [New clazz, WireBean c, CustomInitParamsCb agGridParams c,
           Init c (cb agGridParams c)] \<and>
        snd (createUserComponentFromConcreteClass b clazz agGridParams None) =
          [New clazz, WireBean c, Init c agGridParams]"
    by (auto simp: i createUserComponentFromConcreteClass_def Let_def)
  obtain ps where ps: "createFinalParams b (holderOrGridOptions b h) P pg sp = JObj ps"
    using createFinalParams_obj by blast
  have keys: "get_prop ?fp ''agGridReact'' =
       (if truthy (getBean b ''agGridReact'') then cloneObject b (getBean b ''agGridReact'')
        else JObj [])"
     "get_prop ?fp ''frameworkComponentWrapper'' =
       (if truthy (getBean b ''frameworkComponentWrapper'')
        then getBean b ''frameworkComponentWrapper'' else JObj [])"
     "\<forall>k. k \<noteq> ''agGridReact'' \<and> k \<noteq> ''frameworkComponentWrapper'' \<longrightarrow>
        get_prop ?fp k = get_prop (createFinalParams b (holderOrGridOptions b h) P pg sp) k"
    unfolding finalParamsOf_def Let_def ps
    by (simp_all add: update_conv')
  have tr: "snd (createUserComponent b h pg P d m (Some cb)) =
          t @ [WireBean c, CustomInitParamsCb ?fp c, Init c (cb ?fp c)] \<and>
        snd (createUserComponent b h pg P d m None) = t @ [WireBean c, Init c ?fp]"
    if made: "createComponentInstance b (holderOrGridOptions b h) P pg d m =
        (Inr (Some (c, sp)), t)"
    unfolding createUserComponent_created[OF made] i
    by (auto split: init_result.splits)
  from i[of agGridParams] cc keys tr show ?thesis by blast
qed

theorem customInitParamsCb_params_witness:
  "initOf (demoBeans True) 1 = Some (\<lambda>p. Void) \<and>
   initialiseComponent (demoBeans True) 1 (JObj [(''a'', JNum 1)])
       (Some (\<lambda>p c. JObj [(''custom'', p)])) =
     (Void, [WireBean 1, CustomInitParamsCb (JObj [(''a'', JNum 1)]) 1,
             Init 1 (JObj [(''custom'', JObj [(''a'', JNum 1)])])]) \<and>
   initialiseComponent (demoBeans True) 1 (JObj [(''a'', JNum 1)]) None =
     (Void, [WireBean 1, Init 1 (JObj [(''a'', JNum 1)])]) \<and>
   construct (demoBeans True) 1 = 1 \<and>
   snd (createUserComponentFromConcreteClass (demoBeans True) 1 (JObj [(''a'', JNum 1)])
          (Some (\<lambda>p c. JObj [(''custom'', p)]))) =
     [New 1, WireBean 1, CustomInitParamsCb (JObj [(''a'', JNum 1)]) 1,
      Init 1 (JObj [(''custom'', JObj [(''a'', JNum 1)])])] \<and>
   createComponentInstance (demoBeans True)
       (holderOrGridOptions (demoBeans True) (JObj [(''cellRenderer'', JFun 1)]))
       ''cellRenderer'' (JObj [(''a'', JNum 1)]) None True = (Inr (Some (1, JNull)), [New 1]) \<and>
   snd (createUserComponent (demoBeans True) (JObj [(''cellRenderer'', JFun 1)])
          (JObj [(''a'', JNum 1)]) ''cellRenderer'' None True
          (Some (\<lambda>p c. JObj [(''custom'', p)]))) =
     [New 1, WireBean 1,
      CustomInitParamsCb
        (JObj [(''a'', JNum 1), (''api'', JStr ''gridApi''), (''agGridReact'', JObj []),
               (''frameworkComponentWrapper'', JObj [])]) 1,
      Init 1 (JObj [(''custom'',
        JObj [(''a'', JNum 1), (''api'', JStr ''gridApi''), (''agGridReact'', JObj []),
              (''frameworkComponentWrapper'', JObj [])])])]"
proof -
  have i: "initOf (demoBeans True) 1 = Some (\<lambda>p. Void)"
    by (simp add: demoBeans_def)
  have c: "construct (demoBeans True) 1 = 1"
    by (simp add: demoBeans_def)
  have c1: "createComponentInstance (demoBeans True)
       (holderOrGridOptions (demoBeans True) (JObj [(''cellRenderer'', JFun 1)]))
       ''cellRenderer'' (JObj [(''a'', JNum 1)]) None True = (Inr (Some (1, JNull)), [New 1])"
    by (simp add: resolve_defs create_defs)
  have fp: "finalParamsOf (demoBeans True)
       (holderOrGridOptions (demoBeans True) (JObj [(''cellRenderer'', JFun 1)]))
       ''cellRenderer'' (JObj [(''a'', JNum 1)]) JNull =
     JObj [(''a'', JNum 1), (''api'', JStr ''gridApi''), (''agGridReact'', JObj []),
           (''frameworkComponentWrapper'', JObj [])]"
    by (simp add: create_defs demoBeans_def)
  from customInitParamsCb_params
    [OF i, of "JObj [(''a'', JNum 1)]" "\<lambda>p c. JObj [(''custom'', p)]" 1
       "JObj [(''cellRenderer'', JFun 1)]" "''cellRenderer''" "JObj [(''a'', JNum 1)]"
       None True JNull "[New 1]"]
    i c c1 fp show ?thesis by simp
qed

text \<open>
  C7 as stated fails in \<^verbatim>\<open>createUserComponent\<close>: what the callback receives, and what \<^verbatim>\<open>init\<close>
  receives without a callback, is not the merged params \<^verbatim>\<open>{a: 1, api}\<close> that \<^verbatim>\<open>createFinalParams\<close>
  returns, but that object with the two keys of lines 120 to 122 added.
\<close>

theorem customInitParamsCb_params_counterexample:
  "createFinalParams (demoBeans True) (JObj [(''cellRenderer'', JFun 1)]) ''cellRenderer''
       (JObj [(''a'', JNum 1)]) JNull =
     JObj [(''a'', JNum 1), (''api'', JStr ''gridApi'')] \<and>
   snd (createUserComponent (demoBeans True) (JObj [(''cellRenderer'', JFun 1)])
          (JObj [(''a'', JNum 1)]) ''cellRenderer'' None True (Some (\<lambda>p c. p))) =
     [New 1, WireBean 1,
      CustomInitParamsCb
        (JObj [(''a'', JNum 1), (''api'', JStr ''gridApi''), (''agGridReact'', JObj []),
               (''frameworkComponentWrapper'', JObj [])]) 1,
      Init 1 (JObj [(''a'', JNum 1), (''api'', JStr ''gridApi''), (''agGridReact'', JObj []),
                    (''frameworkComponentWrapper'', JObj [])])] \<and>
   snd (createUserComponent (demoBeans True) (JObj [(''cellRenderer'', JFun 1)])
          (JObj [(''a'', JNum 1)]) ''cellRenderer'' None True None) =
     [New 1, WireBean 1,
      Init 1 (JObj [(''a'', JNum 1), (''api'', JStr ''gridApi''), (''agGridReact'', JObj []),
                    (''frameworkComponentWrapper'', JObj [])])] \<and>
   JObj [(''a'', JNum 1), (''api'', JStr ''gridApi''), (''agGridReact'', JObj []),
         (''frameworkComponentWrapper'', JObj [])] \<noteq>
     JObj [(''a'', JNum 1), (''api'', JStr ''gridApi'')]"
  by (simp add: resolve_defs create_defs)

text \<open>
  C9. The params \<^verbatim>\<open>createUserComponent\<close> hands to \<^verbatim>\<open>initialiseComponent\<close> hold the keys
  \<^verbatim>\<open>agGridReact\<close> (a clone of the bean of that name when it is truthy, else an empty object)
  and \<^verbatim>\<open>frameworkComponentWrapper\<close> (the bean when truthy, else an empty object); under every
  other key they hold what \<^verbatim>\<open>createFinalParams\<close> returned. These are the params the callback
  and \<^verbatim>\<open>init\<close> are called with.
\<close>

theorem createUserComponent_extra_params:
  assumes "createComponentInstance b (holderOrGridOptions b h) P pg d m =
             (Inr (Some (inst, sp)), t)"
    and "fp = finalParamsOf b (holderOrGridOptions b h) P pg sp"
  shows
    "snd (createUserComponent b h pg P d m cb) = t @ snd (initialiseComponent b inst fp cb) \<and>
     get_prop fp ''agGridReact'' =
       (if truthy (getBean b ''agGridReact'') then cloneObject b (getBean b ''agGridReact'')
        else JObj []) \<and>
     get_prop fp ''frameworkComponentWrapper'' =
       (if truthy (getBean b ''frameworkComponentWrapper'')
        then getBean b ''frameworkComponentWrapper'' else JObj []) \<and>
     (\<forall>k. k \<noteq> ''agGridReact'' \<and> k \<noteq> ''frameworkComponentWrapper'' \<longrightarrow>
        get_prop fp k = get_prop (createFinalParams b (holderOrGridOptions b h) P pg sp) k) \<and>
     (\<forall>init. initOf b inst = Some init \<longrightarrow>
        (case cb of
           None \<Rightarrow> snd (initialiseComponent b inst fp cb) = [WireBean inst, Init inst fp]
         | Some f \<Rightarrow> snd (initialiseComponent b inst fp cb) =
             [WireBean inst, CustomInitParamsCb fp inst, Init inst (f fp inst)]))"
proof -
  obtain ps where ps: "createFinalParams b (holderOrGridOptions b h) P pg sp = JObj ps"
    using createFinalParams_obj by blast
  have trace: "snd (createUserComponent b h pg P d m cb) =
      t @ snd (initialiseComponent b inst fp cb)"
    unfolding createUserComponent_created[OF assms(1)] assms(2)
    by (auto split: prod.splits init_result.splits)
  have keys: "get_prop fp ''agGridReact'' =
       (if truthy (getBean b ''agGridReact'') then cloneObject b (getBean b ''agGridReact'')
        else JObj [])"
     "get_prop fp ''frameworkComponentWrapper'' =
       (if truthy (getBean b ''frameworkComponentWrapper'')
        then getBean b ''frameworkComponentWrapper'' else JObj [])"
     "\<forall>k. k \<noteq> ''agGridReact'' \<and> k \<noteq> ''frameworkComponentWrapper'' \<longrightarrow>
        get_prop fp k = get_prop (createFinalParams b (holderOrGridOptions b h) P pg sp) k"
    unfolding assms(2) finalParamsOf_def Let_def ps
    by (simp_all add: update_conv')
  have seen: "\<forall>init. initOf b inst = Some init \<longrightarrow>
        (case cb of
           None \<Rightarrow> snd (initialiseComponent b inst fp cb) = [WireBean inst, Init inst fp]
         | Some f \<Rightarrow> snd (initialiseComponent b inst fp cb) =
             [WireBean inst, CustomInitParamsCb fp inst, Init inst (f fp inst)])"
    by (cases cb) (simp_all add: initialiseComponent_def)
  from trace keys seen show ?thesis by blast
qed

theorem createUserComponent_extra_params_witness:
  "createComponentInstance (demoBeans True)
       (holderOrGridOptions (demoBeans True) (JObj [(''cellRenderer'', JFun 1)]))
       ''cellRenderer'' (JObj [(''a'', JNum 1)]) None True = (Inr (Some (1, JNull)), [New 1]) \<and>
   finalParamsOf (demoBeans True)
       (holderOrGridOptions (demoBeans True) (JObj [(''cellRenderer'', JFun 1)]))
       ''cellRenderer'' (JObj [(''a'', JNum 1)]) JNull =
     JObj [(''a'', JNum 1), (''api'', JStr ''gridApi''), (''agGridReact'', JObj []),
           (''frameworkComponentWrapper'', JObj [])] \<and>
   snd (createUserComponent (demoBeans True) (JObj [(''cellRenderer'', JFun 1)])
          (JObj [(''a'', JNum 1)]) ''cellRenderer'' None True None) =
     [New 1, WireBean 1,
      Init 1 (JObj [(''a'', JNum 1), (''api'', JStr ''gridApi''), (''agGridReact'', JObj []),
                    (''frameworkComponentWrapper'', JObj [])])]"
proof -
  have c1: "createComponentInstance (demoBeans True)
       (holderOrGridOptions (demoBeans True) (JObj [(''cellRenderer'', JFun 1)]))
       ''cellRenderer'' (JObj [(''a'', JNum 1)]) None True = (Inr (Some (1, JNull)), [New 1])"
    by (simp add: resolve_defs create_defs)
  have fp: "finalParamsOf (demoBeans True)
       (holderOrGridOptions (demoBeans True) (JObj [(''cellRenderer'', JFun 1)]))
       ''cellRenderer'' (JObj [(''a'', JNum 1)]) JNull =
     JObj [(''a'', JNum 1), (''api'', JStr ''gridApi''), (''agGridReact'', JObj []),
           (''frameworkComponentWrapper'', JObj [])]"
    by (simp add: create_defs demoBeans_def)
  have i: "initOf (demoBeans True) 1 = Some (\<lambda>p. Void)"
    by (simp add: demoBeans_def)
  from createUserComponent_extra_params [OF c1 refl, of None] c1 fp i
  show ?thesis by simp
qed

text \<open>
  C10. \<^verbatim>\<open>createUserComponentFromConcreteClass\<close> returns the instance \<^verbatim>\<open>new\<close> made of the
  class, which it constructs first; what \<^verbatim>\<open>init\<close> returns is dropped, so the result is the
  same whatever \<^verbatim>\<open>init\<close> methods the instances have.
\<close>

theorem concrete_class_returns_instance:
  "fst (createUserComponentFromConcreteClass b clazz agGridParams cb) = construct b clazz \<and>
   fst (createUserComponentFromConcreteClass (b\<lparr>initOf := i\<rparr>) clazz agGridParams cb) =
     fst (createUserComponentFromConcreteClass b clazz agGridParams cb) \<and>
   hd (snd (createUserComponentFromConcreteClass b clazz agGridParams cb)) = New clazz"
  by (simp add: createUserComponentFromConcreteClass_def Let_def)

end
